theory Spec2Isabelle
  imports Main
begin

section \<open>The operating system as the script sees it\<close>

text \<open>
  \<^verbatim>\<open>server.py\<close> is glue code: every line of it calls the operating system or the Python
  standard library. The model below makes the state those calls act on explicit (a file
  system, the working directory, standard output, and logs of the processes started, the
  sockets bound and the certificate files loaded) and passes it through each function.
  Whatever the script does not decide itself (what the external tool does, whether a port
  can be bound, whether a certificate loads, which requests and signals arrive) is a
  parameter of the model, so that every theorem holds for all such behaviours.
\<close>

type_synonym path = string
type_synonym bytes = string

datatype node = File bytes | Dir

datatype exit_arg = ExitCode int | ExitMsg string

datatype exc =
    FileExistsError
  | FileNotFoundError
  | NotADirectoryError
  | CalledProcessError int
  | OSError
  | SSLError
  | RuntimeError
  | KeyboardInterrupt
  | SystemExit exit_arg

record world =
  fs :: "path \<rightharpoonup> node"
  cwd :: path
  stdout :: "string list"
  invoked :: "string list list"
  bound :: "(string \<times> int) list"
  loaded :: "(path \<times> path) list"
  resolved :: "path list"

text \<open>
  \<open>fs\<close> maps an absolute path to what is there; \<open>stdout\<close> holds one entry for each
  \<^verbatim>\<open>print\<close> call (the text without the newline \<^verbatim>\<open>print\<close> appends, non-ASCII characters as
  their UTF-8 bytes); \<open>invoked\<close> holds the argument vector of every \<^verbatim>\<open>subprocess.run\<close>;
  \<open>bound\<close> the address of every listening socket created; \<open>loaded\<close> the files (as the
  kernel resolved them) of every \<^verbatim>\<open>load_cert_chain\<close>; \<open>resolved\<close> the file-system path
  the request handler computed for each request.
\<close>

text \<open>
  A call either returns, raises, or (only \<^verbatim>\<open>serve_forever\<close>) is still running when the
  observed events end.
\<close>

datatype outcome = Returned world | Raised exc world | Blocked world

fun world_of :: "outcome \<Rightarrow> world" where
  "world_of (Returned w) = w"
| "world_of (Raised x w) = w"
| "world_of (Blocked w) = w"

fun returned :: "outcome \<Rightarrow> bool" where
  "returned (Returned w) = True"
| "returned (Raised x w) = False"
| "returned (Blocked w) = False"

text \<open>Sequencing of statements: the next statement runs only if this one returned.\<close>

fun seq :: "outcome \<Rightarrow> (world \<Rightarrow> outcome) \<Rightarrow> outcome" where
  "seq (Returned w) k = k w"
| "seq (Raised x w) k = Raised x w"
| "seq (Blocked w) k = Blocked w"

datatype tool_result = ToolMissing | ToolExit int "bytes option" "bytes option"

text \<open>
  The environment. \<open>tool argv files\<close> is what starting the program \<open>argv\<close> does: the
  executable is not found, or it exits with a status after writing (or not) its key output
  and its certificate output. \<open>can_bind\<close> tells whether a listening socket can be bound to
  an address, \<open>cert_ok\<close> whether the TLS library accepts what it finds at the certificate
  and key paths, \<open>int_conv\<close> is Python's \<^verbatim>\<open>int\<close> on a string (\<open>None\<close> for \<^verbatim>\<open>ValueError\<close>).
\<close>

record env =
  tool :: "string list \<Rightarrow> (path \<rightharpoonup> node) \<Rightarrow> tool_result"
  can_bind :: "string \<times> int \<Rightarrow> bool"
  cert_ok :: "node option \<Rightarrow> node option \<Rightarrow> bool"
  int_conv :: "string \<Rightarrow> int option"

subsection \<open>Paths\<close>

definition isabs :: "path \<Rightarrow> bool" where
  "isabs p = (take 1 p = ''/'')"

text \<open>
  \<^verbatim>\<open>posixpath.join(a, b)\<close>: \<^verbatim>\<open>b\<close> if it is absolute, else \<^verbatim>\<open>a\<close> and \<^verbatim>\<open>b\<close> with one
  separator between them unless \<^verbatim>\<open>a\<close> is empty or already ends with one.
\<close>

definition posix_join :: "path \<Rightarrow> path \<Rightarrow> path" where
  "posix_join a b =
     (if isabs b then b
      else if a = [] \<or> last a = CHR ''/'' then a @ b
      else a @ ''/'' @ b)"

text \<open>
  How the kernel resolves the path argument of a system call: against the working
  directory, \<^verbatim>\<open>.\<close> being the working directory itself. (The script passes only \<^verbatim>\<open>cert\<close>,
  \<^verbatim>\<open>build\<close>, \<^verbatim>\<open>.\<close> and the two absolute certificate paths.)
\<close>

definition resolve :: "world \<Rightarrow> path \<Rightarrow> path" where
  "resolve w p = (if p = ''.'' then cwd w else posix_join (cwd w) p)"

definition getcwd :: "world \<Rightarrow> path" where
  "getcwd w = cwd w"

text \<open>
  \<^verbatim>\<open>os.path.abspath(p)\<close> is \<^verbatim>\<open>normpath(join(os.getcwd(), p))\<close>; normalisation changes
  nothing for the paths the script makes absolute (\<^verbatim>\<open>cert/cert.pem\<close>, \<^verbatim>\<open>cert/key.pem\<close>
  under a working directory as \<^verbatim>\<open>getcwd\<close> reports it).
\<close>

definition abspath :: "world \<Rightarrow> path \<Rightarrow> path" where
  "abspath w p = posix_join (getcwd w) p"

definition path_exists :: "world \<Rightarrow> path \<Rightarrow> bool" where
  "path_exists w p = (fs w (resolve w p) \<noteq> None)"

subsection \<open>System and library calls\<close>

definition print :: "string \<Rightarrow> world \<Rightarrow> world" where
  "print s w = w\<lparr>stdout := stdout w @ [s]\<rparr>"

text \<open>\<^verbatim>\<open>os.makedirs(p, exist_ok=True)\<close> for a one-component relative \<^verbatim>\<open>p\<close>.\<close>

definition makedirs :: "path \<Rightarrow> world \<Rightarrow> outcome" where
  "makedirs p w =
     (case fs w (resolve w p) of
        None \<Rightarrow> Returned (w\<lparr>fs := (fs w)(resolve w p \<mapsto> Dir)\<rparr>)
      | Some Dir \<Rightarrow> Returned w
      | Some (File b) \<Rightarrow> Raised FileExistsError w)"

text \<open>
  \<^verbatim>\<open>os.chdir(p)\<close>. The working directory of a process is a directory, so \<^verbatim>\<open>chdir(".")\<close>
  changes nothing.
\<close>

definition chdir :: "path \<Rightarrow> world \<Rightarrow> outcome" where
  "chdir p w =
     (if p = ''.'' then Returned w
      else case fs w (resolve w p) of
        None \<Rightarrow> Raised FileNotFoundError w
      | Some Dir \<Rightarrow> Returned (w\<lparr>cwd := resolve w p\<rparr>)
      | Some (File b) \<Rightarrow> Raised NotADirectoryError w)"

text \<open>The argument that follows option \<open>k\<close> in an argument vector.\<close>

fun opt_value :: "string \<Rightarrow> string list \<Rightarrow> string option" where
  "opt_value k (a # b # rest) = (if a = k then Some b else opt_value k (b # rest))"
| "opt_value k rest = None"

definition write_out :: "path option \<Rightarrow> bytes option \<Rightarrow> world \<Rightarrow> world" where
  "write_out p b w =
     (case (p, b) of
        (Some q, Some c) \<Rightarrow> w\<lparr>fs := (fs w)(resolve w q \<mapsto> File c)\<rparr>
      | _ \<Rightarrow> w)"

text \<open>
  \<^verbatim>\<open>subprocess.run(argv, check=True)\<close>: \<^verbatim>\<open>FileNotFoundError\<close> when the executable is
  missing, \<^verbatim>\<open>CalledProcessError\<close> when it exits non-zero. The tool's effect on the file
  system is what it writes to its \<^verbatim>\<open>-keyout\<close> and \<^verbatim>\<open>-out\<close> paths.
\<close>

definition subprocess_run :: "env \<Rightarrow> string list \<Rightarrow> world \<Rightarrow> outcome" where
  "subprocess_run e argv w =
     (let w1 = w\<lparr>invoked := invoked w @ [argv]\<rparr> in
      case tool e argv (fs w) of
        ToolMissing \<Rightarrow> Raised FileNotFoundError w1
      | ToolExit rc key cert \<Rightarrow>
          (let w2 = write_out (opt_value ''-out'' argv) cert
                      (write_out (opt_value ''-keyout'' argv) key w1)
           in if rc = 0 then Returned w2 else Raised (CalledProcessError rc) w2))"

section \<open>Module constants\<close>

definition CERT_DIR :: path where
  "CERT_DIR = ''cert''"

record globals =
  CERT_FILE :: path
  KEY_FILE :: path

text \<open>Evaluated once, when the module is loaded, in the working directory of that moment.\<close>

definition module_init :: "world \<Rightarrow> globals" where
  "module_init w =
     \<lparr>CERT_FILE = abspath w (CERT_DIR @ ''/cert.pem''),
      KEY_FILE = abspath w (CERT_DIR @ ''/key.pem'')\<rparr>"

section \<open>The certificate provisioner\<close>

definition openssl_argv :: "globals \<Rightarrow> string list" where
  "openssl_argv g =
     [''openssl'', ''req'', ''-x509'', ''-newkey'', ''rsa:2048'',
      ''-keyout'', KEY_FILE g, ''-out'', CERT_FILE g,
      ''-days'', ''365'', ''-nodes'',
      ''-subj'', ''/CN=localhost'']"

definition generating_notice :: string where
  "generating_notice =
     [CHR 0xF0, CHR 0x9F, CHR 0x94, CHR 0x92] @ '' Generating self-signed certificate...''"

definition failed_notice :: string where
  "failed_notice = [CHR 0xE2, CHR 0x9D, CHR 0x8C] @ '' Failed to generate certificate.''"

definition have_pair :: "globals \<Rightarrow> world \<Rightarrow> bool" where
  "have_pair g w = (path_exists w (CERT_FILE g) \<and> path_exists w (KEY_FILE g))"

definition ensure_cert :: "globals \<Rightarrow> env \<Rightarrow> world \<Rightarrow> outcome" where
  "ensure_cert g e w =
     seq (makedirs CERT_DIR w) (\<lambda>w1.
     seq (if \<not> have_pair g w1
          then subprocess_run e (openssl_argv g) (print generating_notice w1)
          else Returned w1) (\<lambda>w2.
     if \<not> have_pair g w2
     then Raised (SystemExit (ExitMsg failed_notice)) w2
     else Returned w2))"

section \<open>Starting the server\<close>

text \<open>\<^verbatim>\<open>str\<close> of an integer, for the addresses printed at startup and for status lines.\<close>

fun str_nat :: "nat \<Rightarrow> string" where
  "str_nat n =
     (if n < 10 then [char_of (48 + n)]
      else str_nat (n div 10) @ [char_of (48 + n mod 10)])"

declare str_nat.simps [simp del]

definition str_int :: "int \<Rightarrow> string" where
  "str_int i = (if i < 0 then ''-'' @ str_nat (nat (- i)) else str_nat (nat i))"

text \<open>
  \<^verbatim>\<open>socketserver.ThreadingTCPServer(address, handler)\<close> binds and listens in its
  constructor; a failure there is raised before the \<^verbatim>\<open>with\<close> block is entered.
\<close>

definition ThreadingTCPServer :: "env \<Rightarrow> string \<times> int \<Rightarrow> world \<Rightarrow> outcome" where
  "ThreadingTCPServer e address w =
     (if can_bind e address then Returned (w\<lparr>bound := bound w @ [address]\<rparr>)
      else Raised OSError w)"

text \<open>
  \<^verbatim>\<open>ctx.load_cert_chain(certfile, keyfile)\<close> opens both paths, which the kernel resolves
  against the working directory of that moment.
\<close>

definition load_cert_chain :: "env \<Rightarrow> path \<Rightarrow> path \<Rightarrow> world \<Rightarrow> outcome" where
  "load_cert_chain e certfile keyfile w =
     (let c = resolve w certfile; k = resolve w keyfile;
          w1 = w\<lparr>loaded := loaded w @ [(c, k)]\<rparr>
      in if cert_ok e (fs w c) (fs w k) then Returned w1 else Raised SSLError w1)"

text \<open>
  \<^verbatim>\<open>SimpleHTTPRequestHandler.translate_path\<close>, from the point where the request target
  has been stripped of query and fragment, unquoted, normalised and split at \<^verbatim>\<open>/\<close>: empty
  words, words with a directory part and \<^verbatim>\<open>.\<close> and \<^verbatim>\<open>..\<close> are skipped, the others are
  joined onto the handler's directory. (A target with a trailing slash gets the slash
  appended again; such targets are not modelled.)
\<close>

fun translate_path :: "path \<Rightarrow> string list \<Rightarrow> path" where
  "translate_path directory [] = directory"
| "translate_path directory (word # words) =
     (if word = [] \<or> CHR ''/'' \<in> set word \<or> word = ''.'' \<or> word = ''..''
      then translate_path directory words
      else translate_path (posix_join directory word) words)"

text \<open>
  What happens while \<^verbatim>\<open>serve_forever\<close> runs: a request arrives (handled on a thread of
  its own, whose failures never reach the serving loop), the operator interrupts, or the
  loop itself fails. \<^verbatim>\<open>serve_forever\<close> returns only after \<^verbatim>\<open>shutdown()\<close>, which nothing in
  the script calls, so it has no normal return.
\<close>

datatype event = Request "string list" | Interrupt | Fault

fun serve_forever :: "path \<Rightarrow> event list \<Rightarrow> world \<Rightarrow> outcome" where
  "serve_forever directory [] w = Blocked w"
| "serve_forever directory (Request words # evs) w =
     serve_forever directory evs
       (w\<lparr>resolved := resolved w @ [translate_path directory words]\<rparr>)"
| "serve_forever directory (Interrupt # evs) w = Raised KeyboardInterrupt w"
| "serve_forever directory (Fault # evs) w = Raised RuntimeError w"

definition arrow :: string where
  "arrow = ''   '' @ [CHR 0xE2, CHR 0x86, CHR 0x92] @ '' https://''"

definition banner :: "int \<Rightarrow> string list" where
  "banner port =
     [[CHR 0xF0, CHR 0x9F, CHR 0x9A, CHR 0x80] @ '' HTTPS server running on all interfaces at:'',
      arrow @ ''localhost:'' @ str_int port @ ''/'',
      arrow @ ''127.0.0.1:'' @ str_int port @ ''/'',
      arrow @ ''<your LAN IP>:'' @ str_int port @ ''/  (e.g. from another device)'']"

definition stopped_notice :: string where
  "stopped_notice = [CHR 0x0A, CHR 0xF0, CHR 0x9F, CHR 0x9B, CHR 0x91] @ '' Server stopped.''"

text \<open>The first two statements of \<^verbatim>\<open>run\<close>: provision, then change into the document root.\<close>

definition startup :: "globals \<Rightarrow> env \<Rightarrow> world \<Rightarrow> outcome" where
  "startup g e w =
     seq (ensure_cert g e w) (\<lambda>w1.
     chdir (if path_exists w1 ''build'' then ''build'' else ''.'') w1)"

text \<open>
  The \<^verbatim>\<open>try\<close> statement of \<^verbatim>\<open>run\<close>: only \<^verbatim>\<open>KeyboardInterrupt\<close> is caught, and only around
  \<^verbatim>\<open>serve_forever\<close>.
\<close>

definition serve :: "path \<Rightarrow> event list \<Rightarrow> world \<Rightarrow> outcome" where
  "serve directory evs w =
     (case serve_forever directory evs w of
        Raised KeyboardInterrupt w1 \<Rightarrow> Raised (SystemExit (ExitCode 0)) (print stopped_notice w1)
      | r \<Rightarrow> r)"

definition run :: "globals \<Rightarrow> env \<Rightarrow> event list \<Rightarrow> int \<Rightarrow> world \<Rightarrow> outcome" where
  "run g e evs port w =
     seq (startup g e w) (\<lambda>w2.
     let directory = getcwd w2 in
     seq (ThreadingTCPServer e (''0.0.0.0'', port) w2) (\<lambda>w3.
     seq (load_cert_chain e (CERT_FILE g) (KEY_FILE g) w3) (\<lambda>w4.
     serve directory evs (fold print (banner port) w4))))"

section \<open>The command line and the exit status\<close>







text \<open>
  How the interpreter ends the process: status 0 when the script runs to its end,
  the argument of \<^verbatim>\<open>sys.exit\<close> when that is an integer, status 1 after printing the
  argument when it is a string, status 1 after printing a traceback for any other
  exception (an unhandled \<^verbatim>\<open>KeyboardInterrupt\<close> ends the process by the signal, which a
  shell reports as 130). A process still serving has no exit status.
\<close>

fun exit_status :: "outcome \<Rightarrow> int option" where
  "exit_status (Returned w) = Some 0"
| "exit_status (Blocked w) = None"
| "exit_status (Raised (SystemExit (ExitCode n)) w) = Some n"
| "exit_status (Raised (SystemExit (ExitMsg s)) w) = Some 1"
| "exit_status (Raised KeyboardInterrupt w) = Some 130"
| "exit_status (Raised x w) = Some 1"

definition traceback :: string where
  "traceback = ''Traceback (most recent call last):''"

fun stderr_at_exit :: "outcome \<Rightarrow> string option" where
  "stderr_at_exit (Returned w) = None"
| "stderr_at_exit (Blocked w) = None"
| "stderr_at_exit (Raised (SystemExit (ExitCode n)) w) = None"
| "stderr_at_exit (Raised (SystemExit (ExitMsg s)) w) = Some s"
| "stderr_at_exit (Raised x w) = Some traceback"

section \<open>The request handler\<close>

text \<open>
  \<^verbatim>\<open>Handler\<close> inherits everything from \<^verbatim>\<open>SimpleHTTPRequestHandler\<close> but \<^verbatim>\<open>end_headers\<close>.
  The inherited methods it calls are those of \<^verbatim>\<open>BaseHTTPRequestHandler\<close>: each of
  \<^verbatim>\<open>send_response_only\<close>, \<^verbatim>\<open>send_header\<close> and \<^verbatim>\<open>end_headers\<close> is guarded by
  \<^verbatim>\<open>if self.request_version != 'HTTP/0.9'\<close>, and \<^verbatim>\<open>request_version\<close> is \<^verbatim>\<open>HTTP/0.9\<close> for a
  two-word request line and until a three-word request line has been parsed successfully.
  \<open>headers_buffer\<close> is \<open>None\<close> while the attribute \<^verbatim>\<open>_headers_buffer\<close> does not exist; \<open>wfile\<close> holds
  one entry for each \<^verbatim>\<open>wfile.write\<close>.
\<close>

record handler =
  request_version :: string
  headers_buffer :: "bytes list option"
  wfile :: "bytes list"
  close_connection :: bool

definition protocol_version :: string where
  "protocol_version = ''HTTP/1.0''"

definition CRLF :: bytes where
  "CRLF = [CHR 0x0D, CHR 0x0A]"

definition lower :: "string \<Rightarrow> string" where
  "lower s = map (\<lambda>c. if 65 \<le> (of_char c :: nat) \<and> (of_char c :: nat) \<le> 90
                       then char_of ((of_char c :: nat) + 32) else c) s"

definition buffered :: "handler \<Rightarrow> bytes list" where
  "buffered h = (case headers_buffer h of None \<Rightarrow> [] | Some b \<Rightarrow> b)"

definition status_line :: "nat \<Rightarrow> string \<Rightarrow> bytes" where
  "status_line code message = protocol_version @ '' '' @ str_nat code @ '' '' @ message @ CRLF"

definition header_line :: "string \<Rightarrow> string \<Rightarrow> bytes" where
  "header_line keyword val = keyword @ '': '' @ val @ CRLF"

definition send_response_only :: "nat \<Rightarrow> string \<Rightarrow> handler \<Rightarrow> handler" where
  "send_response_only code message h =
     (if request_version h \<noteq> ''HTTP/0.9''
      then h\<lparr>headers_buffer := Some (buffered h @ [status_line code message])\<rparr>
      else h)"

definition send_header :: "string \<Rightarrow> string \<Rightarrow> handler \<Rightarrow> handler" where
  "send_header keyword val h =
     (let h1 = (if request_version h \<noteq> ''HTTP/0.9''
                then h\<lparr>headers_buffer := Some (buffered h @ [header_line keyword val])\<rparr>
                else h)
      in if lower keyword = ''connection''
         then (if lower val = ''close'' then h1\<lparr>close_connection := True\<rparr>
               else if lower val = ''keep-alive'' then h1\<lparr>close_connection := False\<rparr>
               else h1)
         else h1)"

definition flush_headers :: "handler \<Rightarrow> handler" where
  "flush_headers h =
     (case headers_buffer h of
        None \<Rightarrow> h
      | Some b \<Rightarrow> h\<lparr>wfile := wfile h @ [concat b], headers_buffer := Some []\<rparr>)"

text \<open>\<^verbatim>\<open>BaseHTTPRequestHandler.end_headers\<close>, reached through \<^verbatim>\<open>super()\<close>.\<close>

definition base_end_headers :: "handler \<Rightarrow> handler" where
  "base_end_headers h =
     (if request_version h \<noteq> ''HTTP/0.9''
      then flush_headers (h\<lparr>headers_buffer := Some (buffered h @ [CRLF])\<rparr>)
      else h)"

text \<open>\<^verbatim>\<open>Handler.end_headers\<close>, the one method the script defines.\<close>

definition end_headers :: "handler \<Rightarrow> handler" where
  "end_headers h =
     base_end_headers
       (send_header ''Cross-Origin-Embedder-Policy'' ''require-corp''
         (send_header ''Cross-Origin-Opener-Policy'' ''same-origin'' h))"

text \<open>
  The head of a response as the inherited code produces it (\<^verbatim>\<open>send_response\<close>,
  \<^verbatim>\<open>send_error\<close>, \<^verbatim>\<open>send_head\<close>, \<^verbatim>\<open>list_directory\<close> all have this shape): a status line, any
  headers, then \<^verbatim>\<open>self.end_headers()\<close>, which on a \<^verbatim>\<open>Handler\<close> is the method above.
\<close>

definition respond :: "nat \<Rightarrow> string \<Rightarrow> (string \<times> string) list \<Rightarrow> handler \<Rightarrow> handler" where
  "respond code message hs h =
     end_headers (fold (\<lambda>kv. send_header (fst kv) (snd kv)) hs (send_response_only code message h))"

section \<open>Observations and example states\<close>



text \<open>The bytes \<open>l\<close> occur in \<open>s\<close>; a response carries a header when its line occurs in what
  was written.\<close>

definition occurs :: "bytes \<Rightarrow> bytes \<Rightarrow> bool" where
  "occurs l s = (\<exists>i \<in> {0..<Suc (length s)}. take (length l) (drop i s) = l)"

definition sends_header :: "string \<Rightarrow> string \<Rightarrow> handler \<Rightarrow> bool" where
  "sends_header keyword val h = occurs (header_line keyword val) (concat (wfile h))"

text \<open>A handler that has written nothing yet, for a request of the given version.\<close>

definition new_handler :: "string \<Rightarrow> handler" where
  "new_handler v =
     \<lparr>request_version = v, headers_buffer = None, wfile = [], close_connection = True\<rparr>"

text \<open>
  Example states, at which the theorems below are instantiated: a project directory
  \<^verbatim>\<open>/srv\<close> with a \<^verbatim>\<open>build\<close> directory and no certificate yet; the same with a certificate
  pair; with a pair of empty files; and one where \<^verbatim>\<open>build\<close> is a regular file.
\<close>

definition project_files :: "path \<rightharpoonup> node" where
  "project_files =
     [''/srv'' \<mapsto> Dir,
      ''/srv/index.html'' \<mapsto> File ''source page'',
      ''/srv/build'' \<mapsto> Dir,
      ''/srv/build/index.html'' \<mapsto> File ''built page'']"

definition fresh_world :: world where
  "fresh_world =
     \<lparr>fs = project_files, cwd = ''/srv'', stdout = [], invoked = [], bound = [],
      loaded = [], resolved = []\<rparr>"

definition provisioned_world :: world where
  "provisioned_world =
     fresh_world\<lparr>fs := project_files
       (''/srv/cert'' \<mapsto> Dir,
        ''/srv/cert/cert.pem'' \<mapsto> File ''CERTIFICATE'',
        ''/srv/cert/key.pem'' \<mapsto> File ''PRIVATE KEY'')\<rparr>"

definition touched_world :: world where
  "touched_world =
     fresh_world\<lparr>fs := project_files
       (''/srv/cert'' \<mapsto> Dir,
        ''/srv/cert/cert.pem'' \<mapsto> File [],
        ''/srv/cert/key.pem'' \<mapsto> File [])\<rparr>"

definition script_world :: world where
  "script_world =
     provisioned_world\<lparr>fs := (fs provisioned_world)(''/srv/build'' \<mapsto> File ''#!/bin/sh'')\<rparr>"

text \<open>
  Example environments: one where the tool writes both files and everything else
  succeeds, and one where the tool is not installed.
\<close>

definition working_env :: env where
  "working_env =
     \<lparr>tool = (\<lambda>argv files. ToolExit 0 (Some ''PRIVATE KEY'') (Some ''CERTIFICATE'')),
      can_bind = (\<lambda>address. True),
      cert_ok = (\<lambda>c k. c = Some (File ''CERTIFICATE'') \<and> k = Some (File ''PRIVATE KEY'')),
      int_conv = (\<lambda>s. if s = ''9000'' then Some 9000 else None)\<rparr>"

definition no_tool_env :: env where
  "no_tool_env = working_env\<lparr>tool := (\<lambda>argv files. ToolMissing)\<rparr>"

section \<open>Auxiliary facts\<close>

lemma isabs_Cons: "isabs p = (\<exists>q. p = CHR ''/'' # q)"
  by (cases p) (auto simp: isabs_def)

lemma isabs_posix_join: "isabs a \<Longrightarrow> isabs (posix_join a b)"
  by (auto simp: posix_join_def isabs_Cons)

lemma resolve_isabs: "isabs p \<Longrightarrow> resolve w p = p"
  by (auto simp: resolve_def posix_join_def isabs_Cons)


lemma CERT_FILE_init:
  "CERT_FILE (module_init w) = posix_join (cwd w) ''cert/cert.pem''"
  "KEY_FILE (module_init w) = posix_join (cwd w) ''cert/key.pem''"
  by (simp_all add: module_init_def abspath_def getcwd_def CERT_DIR_def)

lemma isabs_init:
  "isabs (cwd w) \<Longrightarrow> isabs (CERT_FILE (module_init w))"
  "isabs (cwd w) \<Longrightarrow> isabs (KEY_FILE (module_init w))"
  by (simp_all add: CERT_FILE_init isabs_posix_join)


lemma makedirs_frame:
  assumes "makedirs p w = Returned w1"
  shows "cwd w1 = cwd w" "invoked w1 = invoked w" "stdout w1 = stdout w" "bound w1 = bound w"
    "loaded w1 = loaded w" "resolved w1 = resolved w"
    "fs w q \<noteq> None \<Longrightarrow> fs w1 q = fs w q"
    "q \<noteq> resolve w p \<Longrightarrow> fs w1 q = fs w q"
  using assms by (auto simp: makedirs_def split: option.splits node.splits)

lemma makedirs_raised:
  "makedirs p w = Raised x w1 \<Longrightarrow> w1 = w \<and> x = FileExistsError"
  by (auto simp: makedirs_def split: option.splits node.splits)

lemma makedirs_not_blocked: "makedirs p w \<noteq> Blocked w1"
  by (auto simp: makedirs_def split: option.splits node.splits)

lemma resolve_cong: "cwd w1 = cwd w \<Longrightarrow> resolve w1 p = resolve w p"
  by (simp add: resolve_def)

lemma subprocess_run_frame:
  "cwd (world_of (subprocess_run e argv w)) = cwd w"
  "invoked (world_of (subprocess_run e argv w)) = invoked w @ [argv]"
  "bound (world_of (subprocess_run e argv w)) = bound w"
  "loaded (world_of (subprocess_run e argv w)) = loaded w"
  "resolved (world_of (subprocess_run e argv w)) = resolved w"
  by (auto simp: subprocess_run_def write_out_def Let_def split: tool_result.splits option.splits)

lemma subprocess_run_not_blocked: "subprocess_run e argv w \<noteq> Blocked w1"
  by (auto simp: subprocess_run_def Let_def split: tool_result.splits)

lemma ensure_cert_cases:
  "makedirs CERT_DIR w = Raised x w' \<Longrightarrow> ensure_cert g e w = Raised FileExistsError w"
  "makedirs CERT_DIR w = Returned w1 \<Longrightarrow> have_pair g w1 \<Longrightarrow> ensure_cert g e w = Returned w1"
  "makedirs CERT_DIR w = Returned w1 \<Longrightarrow> \<not> have_pair g w1 \<Longrightarrow>
     ensure_cert g e w =
       seq (subprocess_run e (openssl_argv g) (print generating_notice w1))
         (\<lambda>w2. if \<not> have_pair g w2 then Raised (SystemExit (ExitMsg failed_notice)) w2
                else Returned w2)"
  using makedirs_raised[of CERT_DIR w x w']
  by (auto simp: ensure_cert_def)

lemma world_of_seq_check:
  "world_of (seq r (\<lambda>w2. if c w2 then Raised x w2 else Returned w2)) = world_of r"
  by (cases r) auto

lemma print_frame:
  "cwd (print s w) = cwd w" "invoked (print s w) = invoked w" "bound (print s w) = bound w"
  "loaded (print s w) = loaded w" "resolved (print s w) = resolved w" "fs (print s w) = fs w"
  "stdout (print s w) = stdout w @ [s]"
  by (simp_all add: print_def)

lemma ensure_cert_invoked:
  "invoked (world_of (ensure_cert g e w)) =
     invoked w @ (if returned (makedirs CERT_DIR w) \<and> \<not> have_pair g (world_of (makedirs CERT_DIR w))
                  then [openssl_argv g] else [])"
proof (cases "makedirs CERT_DIR w")
  case (Returned w1)
  show ?thesis
  proof (cases "have_pair g w1")
    case True
    then show ?thesis using Returned ensure_cert_cases(2)[OF Returned True] makedirs_frame(2)[OF Returned]
      by simp
  next
    case False
    show ?thesis
      using Returned False makedirs_frame(2)[OF Returned]
      by (simp add: ensure_cert_cases(3)[OF Returned False] world_of_seq_check
          subprocess_run_frame print_frame)
  qed
next
  case (Raised x w1)
  then show ?thesis using ensure_cert_cases(1)[OF Raised] by simp
next
  case (Blocked w1)
  then show ?thesis using makedirs_not_blocked by blast
qed

lemma ensure_cert_frame:
  "cwd (world_of (ensure_cert g e w)) = cwd w"
  "bound (world_of (ensure_cert g e w)) = bound w"
  "loaded (world_of (ensure_cert g e w)) = loaded w"
  "resolved (world_of (ensure_cert g e w)) = resolved w"
proof -
  have "cwd (world_of (ensure_cert g e w)) = cwd w \<and> bound (world_of (ensure_cert g e w)) = bound w
    \<and> loaded (world_of (ensure_cert g e w)) = loaded w \<and> resolved (world_of (ensure_cert g e w)) = resolved w"
  proof (cases "makedirs CERT_DIR w")
    case (Returned w1)
    show ?thesis
    proof (cases "have_pair g w1")
      case True
      then show ?thesis using ensure_cert_cases(2)[OF Returned True] makedirs_frame[OF Returned]
        by simp
    next
      case False
      show ?thesis
        using makedirs_frame[OF Returned]
        by (simp add: ensure_cert_cases(3)[OF Returned False] world_of_seq_check
            subprocess_run_frame print_frame)
    qed
  next
    case (Raised x w1)
    then show ?thesis using ensure_cert_cases(1)[OF Raised] by simp
  next
    case (Blocked w1)
    then show ?thesis using makedirs_not_blocked by blast
  qed
  then show "cwd (world_of (ensure_cert g e w)) = cwd w"
  "bound (world_of (ensure_cert g e w)) = bound w"
  "loaded (world_of (ensure_cert g e w)) = loaded w"
  "resolved (world_of (ensure_cert g e w)) = resolved w" by simp_all
qed

lemma ensure_cert_not_blocked: "ensure_cert g e w \<noteq> Blocked w'"
proof (cases "makedirs CERT_DIR w")
  case (Returned w1)
  show ?thesis
  proof (cases "have_pair g w1")
    case True
    then show ?thesis using ensure_cert_cases(2)[OF Returned True] by simp
  next
    case False
    show ?thesis
      using subprocess_run_not_blocked[of e "openssl_argv g" "print generating_notice w1"]
      by (cases "subprocess_run e (openssl_argv g) (print generating_notice w1)")
         (auto simp: ensure_cert_cases(3)[OF Returned False])
  qed
next
  case (Raised x w1)
  then show ?thesis using ensure_cert_cases(1)[OF Raised] by simp
next
  case (Blocked w1)
  then show ?thesis using makedirs_not_blocked by blast
qed

lemma openssl_argv_options:
  assumes "isabs (KEY_FILE g)" "isabs (CERT_FILE g)"
  shows "opt_value ''-newkey'' (openssl_argv g) = Some ''rsa:2048''"
    "opt_value ''-keyout'' (openssl_argv g) = Some (KEY_FILE g)"
    "opt_value ''-out'' (openssl_argv g) = Some (CERT_FILE g)"
    "opt_value ''-days'' (openssl_argv g) = Some ''365''"
    "opt_value ''-subj'' (openssl_argv g) = Some ''/CN=localhost''"
    "''-x509'' \<in> set (openssl_argv g)"
    "''-nodes'' \<in> set (openssl_argv g)"
proof -
  obtain k c where "KEY_FILE g = CHR ''/'' # k" "CERT_FILE g = CHR ''/'' # c"
    using assms by (auto simp: isabs_Cons)
  then show "opt_value ''-newkey'' (openssl_argv g) = Some ''rsa:2048''"
    "opt_value ''-keyout'' (openssl_argv g) = Some (KEY_FILE g)"
    "opt_value ''-out'' (openssl_argv g) = Some (CERT_FILE g)"
    "opt_value ''-days'' (openssl_argv g) = Some ''365''"
    "opt_value ''-subj'' (openssl_argv g) = Some ''/CN=localhost''"
    "''-x509'' \<in> set (openssl_argv g)"
    "''-nodes'' \<in> set (openssl_argv g)"
    by (simp_all add: openssl_argv_def)
qed


lemma chdir_cases:
  "chdir p w = Returned w2 \<Longrightarrow> w2 = w\<lparr>cwd := cwd w2\<rparr> \<and> cwd w2 = resolve w p"
  "chdir p w = Raised x w2 \<Longrightarrow> w2 = w \<and> (x = FileNotFoundError \<or> x = NotADirectoryError)"
  "chdir p w \<noteq> Blocked w2"
  by (auto simp: chdir_def resolve_def split: if_splits option.splits node.splits)

lemma startup_cases:
  "ensure_cert g e w = Raised x w1 \<Longrightarrow> startup g e w = Raised x w1"
  "ensure_cert g e w = Returned w1 \<Longrightarrow>
     startup g e w = chdir (if path_exists w1 ''build'' then ''build'' else ''.'') w1"
  by (simp_all add: startup_def)

lemma startup_not_blocked: "startup g e w \<noteq> Blocked w'"
proof (cases "ensure_cert g e w")
  case (Returned w1) then show ?thesis using chdir_cases(3) by (simp add: startup_cases(2))
next
  case (Raised x w1) then show ?thesis by (simp add: startup_cases(1))
next
  case (Blocked w1) then show ?thesis using ensure_cert_not_blocked by blast
qed


lemma startup_returned:
  assumes "startup g e w = Returned w2"
  shows "\<exists>w1. ensure_cert g e w = Returned w1 \<and> w2 = w1\<lparr>cwd := cwd w2\<rparr>
           \<and> cwd w2 = resolve w1 (if path_exists w1 ''build'' then ''build'' else ''.'')"
proof (cases "ensure_cert g e w")
  case (Returned w1)
  have "chdir (if path_exists w1 ''build'' then ''build'' else ''.'') w1 = Returned w2"
    using assms by (simp add: startup_cases(2)[OF Returned])
  from chdir_cases(1)[OF this] Returned show ?thesis by blast
next
  case (Raised y w1)
  then show ?thesis using assms by (auto simp: startup_cases(1))
next
  case (Blocked w1) then show ?thesis using ensure_cert_not_blocked by blast
qed

lemma startup_frame:
  "bound (world_of (startup g e w)) = bound w"
  "loaded (world_of (startup g e w)) = loaded w"
  "resolved (world_of (startup g e w)) = resolved w"
  "invoked (world_of (startup g e w)) = invoked (world_of (ensure_cert g e w))"
  "fs (world_of (startup g e w)) = fs (world_of (ensure_cert g e w))"
  "stdout (world_of (startup g e w)) = stdout (world_of (ensure_cert g e w))"
proof -
  have "bound (world_of (startup g e w)) = bound w \<and> loaded (world_of (startup g e w)) = loaded w
    \<and> resolved (world_of (startup g e w)) = resolved w
    \<and> invoked (world_of (startup g e w)) = invoked (world_of (ensure_cert g e w))
    \<and> fs (world_of (startup g e w)) = fs (world_of (ensure_cert g e w))
    \<and> stdout (world_of (startup g e w)) = stdout (world_of (ensure_cert g e w))"
  proof (cases "ensure_cert g e w")
    case (Returned w1)
    have f: "bound w1 = bound w" "loaded w1 = loaded w" "resolved w1 = resolved w"
      using ensure_cert_frame[of g e w] Returned by simp_all
    show ?thesis unfolding startup_cases(2)[OF Returned] Returned using f
      by (auto simp: chdir_def split: option.splits node.splits)
  next
    case (Raised y w1)
    then show ?thesis using ensure_cert_frame[of g e w] by (simp add: startup_cases(1))
  next
    case (Blocked w1) then show ?thesis using ensure_cert_not_blocked by blast
  qed
  then show "bound (world_of (startup g e w)) = bound w"
  "loaded (world_of (startup g e w)) = loaded w"
  "resolved (world_of (startup g e w)) = resolved w"
  "invoked (world_of (startup g e w)) = invoked (world_of (ensure_cert g e w))"
  "fs (world_of (startup g e w)) = fs (world_of (ensure_cert g e w))"
  "stdout (world_of (startup g e w)) = stdout (world_of (ensure_cert g e w))"
    by simp_all
qed

lemma fold_print_frame:
  "cwd (fold print xs w) = cwd w" "invoked (fold print xs w) = invoked w"
  "bound (fold print xs w) = bound w" "loaded (fold print xs w) = loaded w"
  "resolved (fold print xs w) = resolved w" "fs (fold print xs w) = fs w"
  "stdout (fold print xs w) = stdout w @ xs"
  by (induction xs arbitrary: w) (simp_all add: print_frame)

lemma serve_forever_frame:
  "cwd (world_of (serve_forever d evs w)) = cwd w \<and> invoked (world_of (serve_forever d evs w)) = invoked w
   \<and> bound (world_of (serve_forever d evs w)) = bound w \<and> loaded (world_of (serve_forever d evs w)) = loaded w
   \<and> fs (world_of (serve_forever d evs w)) = fs w \<and> stdout (world_of (serve_forever d evs w)) = stdout w"
  by (induction d evs w rule: serve_forever.induct) simp_all

lemma serve_forever_requests:
  "serve_forever d (map Request rs @ evs) w =
     serve_forever d evs (w\<lparr>resolved := resolved w @ map (translate_path d) rs\<rparr>)"
  by (induction rs arbitrary: w) simp_all






lemma resolve_update:
  "resolve (w\<lparr>bound := b\<rparr>) p = resolve w p"
  "resolve (w\<lparr>loaded := l\<rparr>) p = resolve w p"
  by (simp_all add: resolve_def)

lemma run_cases:
  "startup g e w = Raised x w' \<Longrightarrow> run g e evs port w = Raised x w'"
  "startup g e w = Returned w2 \<Longrightarrow> \<not> can_bind e (''0.0.0.0'', port) \<Longrightarrow>
     run g e evs port w = Raised OSError w2"
  "startup g e w = Returned w2 \<Longrightarrow> can_bind e (''0.0.0.0'', port) \<Longrightarrow>
   \<not> cert_ok e (fs w2 (resolve w2 (CERT_FILE g))) (fs w2 (resolve w2 (KEY_FILE g))) \<Longrightarrow>
     run g e evs port w =
       Raised SSLError (w2\<lparr>bound := bound w2 @ [(''0.0.0.0'', port)],
                           loaded := loaded w2 @ [(resolve w2 (CERT_FILE g), resolve w2 (KEY_FILE g))]\<rparr>)"
  "startup g e w = Returned w2 \<Longrightarrow> can_bind e (''0.0.0.0'', port) \<Longrightarrow>
   cert_ok e (fs w2 (resolve w2 (CERT_FILE g))) (fs w2 (resolve w2 (KEY_FILE g))) \<Longrightarrow>
     run g e evs port w =
       serve (cwd w2) evs (fold print (banner port)
         (w2\<lparr>bound := bound w2 @ [(''0.0.0.0'', port)],
              loaded := loaded w2 @ [(resolve w2 (CERT_FILE g), resolve w2 (KEY_FILE g))]\<rparr>))"
  by (simp_all add: run_def ThreadingTCPServer_def load_cert_chain_def Let_def getcwd_def resolve_update)

lemma serve_frame:
  "cwd (world_of (serve d evs w)) = cwd w" "invoked (world_of (serve d evs w)) = invoked w"
  "bound (world_of (serve d evs w)) = bound w" "loaded (world_of (serve d evs w)) = loaded w"
  "fs (world_of (serve d evs w)) = fs w"
proof -
  have "cwd (world_of (serve d evs w)) = cwd w \<and> invoked (world_of (serve d evs w)) = invoked w
   \<and> bound (world_of (serve d evs w)) = bound w \<and> loaded (world_of (serve d evs w)) = loaded w
   \<and> fs (world_of (serve d evs w)) = fs w"
    using serve_forever_frame[of d evs w]
    by (cases "serve_forever d evs w") (auto simp: serve_def print_frame split: exc.splits)
  then show "cwd (world_of (serve d evs w)) = cwd w" "invoked (world_of (serve d evs w)) = invoked w"
  "bound (world_of (serve d evs w)) = bound w" "loaded (world_of (serve d evs w)) = loaded w"
  "fs (world_of (serve d evs w)) = fs w" by simp_all
qed



lemma run_bound_loaded:
  "(bound (world_of (run g e evs port w)) = bound w \<and> loaded (world_of (run g e evs port w)) = loaded w)
   \<or> (\<exists>w2. startup g e w = Returned w2 \<and> bound w2 = bound w
         \<and> bound (world_of (run g e evs port w)) = bound w @ [(''0.0.0.0'', port)]
         \<and> loaded (world_of (run g e evs port w)) =
              loaded w @ [(resolve w2 (CERT_FILE g), resolve w2 (KEY_FILE g))]
         \<and> fs (world_of (run g e evs port w)) = fs w2)"
proof (cases "startup g e w")
  case (Returned w2)
  have f: "bound w2 = bound w" "loaded w2 = loaded w"
    using startup_frame(1,2)[of g e w] Returned by simp_all
  show ?thesis
  proof (cases "can_bind e (''0.0.0.0'', port)")
    case False
    then show ?thesis using f by (simp add: run_cases(2)[OF Returned False])
  next
    case True
    show ?thesis
    proof (cases "cert_ok e (fs w2 (resolve w2 (CERT_FILE g))) (fs w2 (resolve w2 (KEY_FILE g)))")
      case False
      then show ?thesis using f Returned by (simp add: run_cases(3)[OF Returned True False])
    next
      case ok: True
      show ?thesis using f Returned
        by (simp add: run_cases(4)[OF Returned True ok] serve_frame fold_print_frame)
    qed
  qed
next
  case (Raised x w')
  then show ?thesis using startup_frame(1,2)[of g e w] by (simp add: run_cases(1)[OF Raised])
next
  case (Blocked w')
  then show ?thesis using startup_not_blocked by blast
qed

lemma run_invoked:
  "invoked (world_of (run g e evs port w)) = invoked (world_of (ensure_cert g e w))"
proof (cases "startup g e w")
  case (Returned w2)
  have f: "invoked w2 = invoked (world_of (ensure_cert g e w))"
    using startup_frame(4)[of g e w] Returned by simp
  show ?thesis
  proof (cases "can_bind e (''0.0.0.0'', port)")
    case False
    then show ?thesis using f by (simp add: run_cases(2)[OF Returned False])
  next
    case True
    show ?thesis
    proof (cases "cert_ok e (fs w2 (resolve w2 (CERT_FILE g))) (fs w2 (resolve w2 (KEY_FILE g)))")
      case False
      then show ?thesis using f Returned by (simp add: run_cases(3)[OF Returned True False])
    next
      case ok: True
      show ?thesis using f Returned
        by (simp add: run_cases(4)[OF Returned True ok] serve_frame fold_print_frame)
    qed
  qed
next
  case (Raised x w')
  then show ?thesis using startup_frame(4)[of g e w] by (simp add: run_cases(1)[OF Raised])
next
  case (Blocked w')
  then show ?thesis using startup_not_blocked by blast
qed

lemma ensure_cert_Returned_pair:
  assumes "ensure_cert g e w = Returned w'"
  shows "have_pair g w'"
proof -
  obtain w1 where m: "makedirs CERT_DIR w = Returned w1"
    using assms by (cases "makedirs CERT_DIR w") (auto simp: ensure_cert_def)
  let ?gen = "if \<not> have_pair g w1
          then subprocess_run e (openssl_argv g) (print generating_notice w1)
          else Returned w1"
  obtain w2 where g: "?gen = Returned w2"
    using assms m by (cases ?gen) (auto simp: ensure_cert_def)
  from assms m g have "have_pair g w2 \<and> w' = w2"
    by (auto simp: ensure_cert_def split: if_splits)
  then show ?thesis by simp
qed










lemma send_header_open:
  assumes "request_version h \<noteq> ''HTTP/0.9''"
  shows "request_version (send_header k v h) = request_version h"
    "buffered (send_header k v h) = buffered h @ [header_line k v]"
    "wfile (send_header k v h) = wfile h"
  using assms by (simp_all add: send_header_def buffered_def Let_def)

lemma fold_send_header_open:
  assumes "request_version h \<noteq> ''HTTP/0.9''"
  shows "request_version (fold (\<lambda>kv. send_header (fst kv) (snd kv)) hs h) = request_version h
       \<and> buffered (fold (\<lambda>kv. send_header (fst kv) (snd kv)) hs h) =
           buffered h @ map (\<lambda>kv. header_line (fst kv) (snd kv)) hs
       \<and> wfile (fold (\<lambda>kv. send_header (fst kv) (snd kv)) hs h) = wfile h"
  using assms
proof (induction hs arbitrary: h)
  case Nil
  then show ?case by simp
next
  case (Cons kv hs)
  have v: "request_version (send_header (fst kv) (snd kv) h) \<noteq> ''HTTP/0.9''"
    using Cons.prems by (simp add: send_header_open)
  show ?case using Cons.IH[OF v] Cons.prems by (simp add: send_header_open)
qed

lemma send_response_only_open:
  assumes "request_version h \<noteq> ''HTTP/0.9''"
  shows "request_version (send_response_only code m h) = request_version h"
    "buffered (send_response_only code m h) = buffered h @ [status_line code m]"
    "wfile (send_response_only code m h) = wfile h"
  using assms by (simp_all add: send_response_only_def buffered_def)

lemma end_headers_open:
  assumes "request_version h \<noteq> ''HTTP/0.9''"
  shows "wfile (end_headers h) =
           wfile h @ [concat (buffered h @
              [header_line ''Cross-Origin-Opener-Policy'' ''same-origin'',
               header_line ''Cross-Origin-Embedder-Policy'' ''require-corp'', CRLF])]"
    "headers_buffer (end_headers h) = Some []"
proof -
  let ?h1 = "send_header ''Cross-Origin-Opener-Policy'' ''same-origin'' h"
  let ?h2 = "send_header ''Cross-Origin-Embedder-Policy'' ''require-corp'' ?h1"
  have v1: "request_version ?h1 \<noteq> ''HTTP/0.9''" using assms by (simp add: send_header_open)
  have v2: "request_version ?h2 \<noteq> ''HTTP/0.9''" using v1 by (simp add: send_header_open)
  have b2: "buffered ?h2 = buffered h @ [header_line ''Cross-Origin-Opener-Policy'' ''same-origin'',
               header_line ''Cross-Origin-Embedder-Policy'' ''require-corp'']"
    using assms v1 by (simp add: send_header_open)
  have w2: "wfile ?h2 = wfile h" using assms v1 by (simp add: send_header_open)
  show "wfile (end_headers h) =
           wfile h @ [concat (buffered h @
              [header_line ''Cross-Origin-Opener-Policy'' ''same-origin'',
               header_line ''Cross-Origin-Embedder-Policy'' ''require-corp'', CRLF])]"
    using v2 b2 w2 by (simp add: end_headers_def base_end_headers_def flush_headers_def)
  show "headers_buffer (end_headers h) = Some []"
    using v2 by (simp add: end_headers_def base_end_headers_def flush_headers_def)
qed

lemma send_header_closed:
  assumes "request_version h = ''HTTP/0.9''"
  shows "request_version (send_header k v h) = ''HTTP/0.9''"
    "wfile (send_header k v h) = wfile h"
  using assms by (simp_all add: send_header_def Let_def)

lemma fold_send_header_closed:
  assumes "request_version h = ''HTTP/0.9''"
  shows "request_version (fold (\<lambda>kv. send_header (fst kv) (snd kv)) hs h) = ''HTTP/0.9''
       \<and> wfile (fold (\<lambda>kv. send_header (fst kv) (snd kv)) hs h) = wfile h"
  using assms
proof (induction hs arbitrary: h)
  case Nil
  then show ?case by simp
next
  case (Cons kv hs)
  show ?case
    using Cons.IH[OF send_header_closed(1)[OF Cons.prems, of "fst kv" "snd kv"]]
      send_header_closed(2)[OF Cons.prems, of "fst kv" "snd kv"]
    by simp
qed

lemma respond_closed:
  assumes "request_version h = ''HTTP/0.9''"
  shows "wfile (respond code message hs h) = wfile h"
proof -
  let ?h1 = "send_response_only code message h"
  let ?h2 = "fold (\<lambda>kv. send_header (fst kv) (snd kv)) hs ?h1"
  have h1: "?h1 = h" using assms by (simp add: send_response_only_def)
  have h2: "request_version ?h2 = ''HTTP/0.9''" "wfile ?h2 = wfile h"
    using fold_send_header_closed[OF assms, of hs] h1 by simp_all
  let ?h3 = "send_header ''Cross-Origin-Opener-Policy'' ''same-origin'' ?h2"
  let ?h4 = "send_header ''Cross-Origin-Embedder-Policy'' ''require-corp'' ?h3"
  have h3: "request_version ?h3 = ''HTTP/0.9''" "wfile ?h3 = wfile h"
    using send_header_closed[OF h2(1)] h2(2) by simp_all
  have h4: "request_version ?h4 = ''HTTP/0.9''" "wfile ?h4 = wfile h"
    using send_header_closed[OF h3(1)] h3(2) by simp_all
  show ?thesis
    unfolding respond_def end_headers_def base_end_headers_def using h4 by simp
qed

section \<open>Response headers\<close>

lemma occursI: "s = a @ l @ b \<Longrightarrow> occurs l s"
  unfolding occurs_def by (rule bexI[of _ "length a"]) simp_all

lemma not_occurs_empty: "l \<noteq> [] \<Longrightarrow> \<not> occurs l []"
  by (auto simp: occurs_def)

text \<open>
  C1 (amended). For every status line and every list of headers the inherited code sends
  before it calls \<^verbatim>\<open>end_headers\<close>, and for every request whose recorded version is not
  \<^verbatim>\<open>HTTP/0.9\<close>, the header section written to the client is: whatever was buffered, the
  status line, the inherited code's headers in their order, then
  \<^verbatim>\<open>Cross-Origin-Opener-Policy: same-origin\<close>, then
  \<^verbatim>\<open>Cross-Origin-Embedder-Policy: require-corp\<close>, then the blank line. So both headers are
  in the response, after every header the base logic set, whatever the status code.
\<close>

theorem isolation_headers_end_every_header_section:
  assumes "request_version h \<noteq> ''HTTP/0.9''"
  shows "wfile (respond code message hs h) =
           wfile h @ [concat (buffered h @ [status_line code message]
              @ map (\<lambda>kv. header_line (fst kv) (snd kv)) hs
              @ [header_line ''Cross-Origin-Opener-Policy'' ''same-origin'',
                 header_line ''Cross-Origin-Embedder-Policy'' ''require-corp'', CRLF])]
       \<and> headers_buffer (respond code message hs h) = Some []
       \<and> sends_header ''Cross-Origin-Opener-Policy'' ''same-origin'' (respond code message hs h)
       \<and> sends_header ''Cross-Origin-Embedder-Policy'' ''require-corp'' (respond code message hs h)"
proof -
  let ?h1 = "send_response_only code message h"
  let ?h2 = "fold (\<lambda>kv. send_header (fst kv) (snd kv)) hs ?h1"
  let ?pre = "concat (wfile h) @ concat (buffered h) @ status_line code message
                @ concat (map (\<lambda>kv. header_line (fst kv) (snd kv)) hs)"
  let ?coop = "header_line ''Cross-Origin-Opener-Policy'' ''same-origin''"
  let ?coep = "header_line ''Cross-Origin-Embedder-Policy'' ''require-corp''"
  have v1: "request_version ?h1 \<noteq> ''HTTP/0.9''" using assms by (simp add: send_response_only_open)
  have f: "request_version ?h2 = request_version ?h1"
    "buffered ?h2 = buffered ?h1 @ map (\<lambda>kv. header_line (fst kv) (snd kv)) hs"
    "wfile ?h2 = wfile ?h1"
    using fold_send_header_open[OF v1, of hs] by simp_all
  have v2: "request_version ?h2 \<noteq> ''HTTP/0.9''" using f(1) v1 by simp
  have w: "wfile (respond code message hs h) =
           wfile h @ [concat (buffered h @ [status_line code message]
              @ map (\<lambda>kv. header_line (fst kv) (snd kv)) hs @ [?coop, ?coep, CRLF])]"
    and b: "headers_buffer (respond code message hs h) = Some []"
    unfolding respond_def
    using end_headers_open[OF v2] f(2,3) assms by (simp_all add: send_response_only_open)
  have c: "concat (wfile (respond code message hs h)) = ?pre @ ?coop @ (?coep @ CRLF)"
    "concat (wfile (respond code message hs h)) = (?pre @ ?coop) @ ?coep @ CRLF"
    unfolding w by simp_all
  have s1: "sends_header ''Cross-Origin-Opener-Policy'' ''same-origin'' (respond code message hs h)"
    unfolding sends_header_def by (rule occursI[OF c(1)])
  have s2: "sends_header ''Cross-Origin-Embedder-Policy'' ''require-corp'' (respond code message hs h)"
    unfolding sends_header_def by (rule occursI[OF c(2)])
  show ?thesis using w b s1 s2 by simp
qed

text \<open>The theorem at a 404 answer to an \<^verbatim>\<open>HTTP/1.1\<close> request.\<close>

theorem isolation_headers_end_every_header_section_witness:
  "request_version (new_handler ''HTTP/1.1'') \<noteq> ''HTTP/0.9''
   \<and> wfile (respond 404 ''File not found'' [(''Content-Type'', ''text/html'')]
        (new_handler ''HTTP/1.1'')) =
       [status_line 404 ''File not found''
        @ header_line ''Content-Type'' ''text/html''
        @ header_line ''Cross-Origin-Opener-Policy'' ''same-origin''
        @ header_line ''Cross-Origin-Embedder-Policy'' ''require-corp''
        @ CRLF]"
proof -
  have v: "request_version (new_handler ''HTTP/1.1'') \<noteq> ''HTTP/0.9''"
    by (simp add: new_handler_def)
  show ?thesis
    using v isolation_headers_end_every_header_section[OF v, of 404 "''File not found''"
        "[(''Content-Type'', ''text/html'')]"]
    by (simp add: new_handler_def buffered_def)
qed

text \<open>
  C1 as stated fails: a request line of two words, or one that does not parse, leaves the
  request version at \<^verbatim>\<open>HTTP/0.9\<close>, and then the error answer (here 400) is written with no
  header section at all, so neither header is in it.
\<close>

theorem http09_response_has_no_headers:
  "wfile (respond 400 ''Bad request syntax'' [(''Connection'', ''close'')]
      (new_handler ''HTTP/0.9'')) = []
   \<and> \<not> sends_header ''Cross-Origin-Opener-Policy'' ''same-origin''
         (respond 400 ''Bad request syntax'' [(''Connection'', ''close'')] (new_handler ''HTTP/0.9''))
   \<and> \<not> sends_header ''Cross-Origin-Embedder-Policy'' ''require-corp''
         (respond 400 ''Bad request syntax'' [(''Connection'', ''close'')] (new_handler ''HTTP/0.9''))"
proof -
  have v: "request_version (new_handler ''HTTP/0.9'') = ''HTTP/0.9''"
    by (simp add: new_handler_def)
  have w: "wfile (respond 400 ''Bad request syntax'' [(''Connection'', ''close'')]
      (new_handler ''HTTP/0.9'')) = []"
    using respond_closed[OF v] by (simp add: new_handler_def)
  have ne: "header_line ''Cross-Origin-Opener-Policy'' ''same-origin'' \<noteq> []"
    "header_line ''Cross-Origin-Embedder-Policy'' ''require-corp'' \<noteq> []"
    by (simp_all add: header_line_def)
  show ?thesis
    unfolding sends_header_def w using ne by (simp add: occurs_def)
qed

section \<open>The provisioner\<close>

lemmas os_defs =
  makedirs_def chdir_def resolve_def posix_join_def isabs_def path_exists_def have_pair_def
  subprocess_run_def write_out_def print_def openssl_argv_def CERT_DIR_def Let_def
  module_init_def abspath_def getcwd_def

lemmas example_defs =
  fresh_world_def provisioned_world_def touched_world_def script_world_def project_files_def
  working_env_def no_tool_env_def




text \<open>
  C3. If generation fails in one of the three ways (the tool is missing, it exits non-zero,
  or the pair is still incomplete after it ran), then \<^verbatim>\<open>run\<close> ends by the corresponding
  exception, the process exits with status 1, an error text goes to standard error, the
  tool has been started exactly once (no retry), and no listening socket has been
  created (no fallback to any kind of serving). This holds for every port, every
  environment and whatever events would have followed.
\<close>

theorem generation_failure_is_fatal:
  assumes "returned (makedirs CERT_DIR w)"
    and "w1 = world_of (makedirs CERT_DIR w)"
    and "\<not> have_pair g w1"
    and "tool e (openssl_argv g) (fs w1) = ToolMissing
       \<or> (\<exists>rc k c. tool e (openssl_argv g) (fs w1) = ToolExit rc k c \<and> rc \<noteq> 0)
       \<or> \<not> have_pair g (world_of (subprocess_run e (openssl_argv g) (print generating_notice w1)))"
  shows "run g e evs port w =
           Raised (case tool e (openssl_argv g) (fs w1) of
                     ToolMissing \<Rightarrow> FileNotFoundError
                   | ToolExit rc k c \<Rightarrow>
                       if rc \<noteq> 0 then CalledProcessError rc
                       else SystemExit (ExitMsg failed_notice))
                  (world_of (subprocess_run e (openssl_argv g) (print generating_notice w1)))
       \<and> exit_status (run g e evs port w) = Some 1
       \<and> stderr_at_exit (run g e evs port w) \<noteq> None
       \<and> invoked (world_of (run g e evs port w)) = invoked w @ [openssl_argv g]
       \<and> bound (world_of (run g e evs port w)) = bound w"
proof -
  have m: "makedirs CERT_DIR w = Returned w1"
    using assms(1,2) by (cases "makedirs CERT_DIR w") simp_all
  note np = assms(3)
  let ?sp = "subprocess_run e (openssl_argv g) (print generating_notice w1)"
  let ?x = "case tool e (openssl_argv g) (fs w1) of
                     ToolMissing \<Rightarrow> FileNotFoundError
                   | ToolExit rc k c \<Rightarrow>
                       if rc \<noteq> 0 then CalledProcessError rc
                       else SystemExit (ExitMsg failed_notice)"
  have ec: "ensure_cert g e w = Raised ?x (world_of ?sp)"
  proof (cases "tool e (openssl_argv g) (fs w1)")
    case ToolMissing
    then have "\<exists>W. ?sp = Raised FileNotFoundError W"
      by (simp add: subprocess_run_def print_frame)
    then obtain W where sp: "?sp = Raised FileNotFoundError W" by blast
    show ?thesis
      using ToolMissing by (simp add: ensure_cert_cases(3)[OF m np] sp)
  next
    case (ToolExit rc k c)
    show ?thesis
    proof (cases "rc = 0")
      case True
      then have "\<exists>W. ?sp = Returned W"
        using ToolExit by (simp add: subprocess_run_def print_frame Let_def)
      then obtain W where sp: "?sp = Returned W" by blast
      have "\<not> have_pair g (world_of ?sp)"
        using assms(4) ToolExit True by simp
      then show ?thesis
        using ToolExit True by (simp add: ensure_cert_cases(3)[OF m np] sp)
    next
      case False
      then have "\<exists>W. ?sp = Raised (CalledProcessError rc) W"
        using ToolExit by (simp add: subprocess_run_def print_frame Let_def)
      then obtain W where sp: "?sp = Raised (CalledProcessError rc) W" by blast
      show ?thesis
        using ToolExit False by (simp add: ensure_cert_cases(3)[OF m np] sp)
    qed
  qed
  have r: "run g e evs port w = Raised ?x (world_of ?sp)"
    by (simp add: run_cases(1)[OF startup_cases(1)[OF ec]])
  have st: "exit_status (Raised ?x (world_of ?sp)) = Some 1"
    "stderr_at_exit (Raised ?x (world_of ?sp)) \<noteq> None"
    by (simp_all split: tool_result.splits)
  have inv: "invoked (world_of ?sp) = invoked w @ [openssl_argv g]"
    using makedirs_frame(2)[OF m] by (simp add: subprocess_run_frame print_frame)
  have bd: "bound (world_of ?sp) = bound w"
    using makedirs_frame(4)[OF m] by (simp add: subprocess_run_frame print_frame)
  show ?thesis unfolding r using st inv bd by simp
qed

text \<open>The theorem at a fresh project directory on a machine without the tool.\<close>

theorem generation_failure_is_fatal_witness:
  "returned (makedirs CERT_DIR fresh_world)
   \<and> \<not> have_pair (module_init fresh_world) (world_of (makedirs CERT_DIR fresh_world))
   \<and> tool no_tool_env (openssl_argv (module_init fresh_world))
        (fs (world_of (makedirs CERT_DIR fresh_world))) = ToolMissing
   \<and> exit_status (run (module_init fresh_world) no_tool_env [Request [''index.html'']] 8443
        fresh_world) = Some 1
   \<and> stderr_at_exit (run (module_init fresh_world) no_tool_env [Request [''index.html'']] 8443
        fresh_world) \<noteq> None
   \<and> invoked (world_of (run (module_init fresh_world) no_tool_env
        [Request [''index.html'']] 8443 fresh_world)) = [openssl_argv (module_init fresh_world)]
   \<and> bound (world_of (run (module_init fresh_world) no_tool_env [Request [''index.html'']] 8443
        fresh_world)) = []"
proof -
  have a: "returned (makedirs CERT_DIR fresh_world)"
    by (simp add: os_defs example_defs)
  have b: "\<not> have_pair (module_init fresh_world) (world_of (makedirs CERT_DIR fresh_world))"
    by (simp add: os_defs example_defs)
  have c: "tool no_tool_env (openssl_argv (module_init fresh_world))
        (fs (world_of (makedirs CERT_DIR fresh_world))) = ToolMissing"
    by (simp add: example_defs)
  have d: "tool no_tool_env (openssl_argv (module_init fresh_world))
        (fs (world_of (makedirs CERT_DIR fresh_world))) = ToolMissing
    \<or> (\<exists>rc k c. tool no_tool_env (openssl_argv (module_init fresh_world))
        (fs (world_of (makedirs CERT_DIR fresh_world))) = ToolExit rc k c \<and> rc \<noteq> 0)
    \<or> \<not> have_pair (module_init fresh_world) (world_of (subprocess_run no_tool_env
          (openssl_argv (module_init fresh_world))
          (print generating_notice (world_of (makedirs CERT_DIR fresh_world)))))"
    using c by simp
  have i: "invoked fresh_world = []" "bound fresh_world = []" by (simp_all add: example_defs)
  note t = generation_failure_is_fatal[OF a refl b d, of "[Request [''index.html'']]" 8443]
  note t2 = t[THEN conjunct2]
  note t3 = t2[THEN conjunct2]
  note t4 = t3[THEN conjunct2]
  show ?thesis
    using a b c t2[THEN conjunct1] t3[THEN conjunct1] t4[THEN conjunct1] t4[THEN conjunct2]
    unfolding i by simp
qed

text \<open>
  C4. If both the certificate path and the key path exist when \<^verbatim>\<open>ensure_cert\<close> is called,
  it starts no external program and what is stored at the two paths is the same
  afterwards as before, whatever the environment.
\<close>

theorem ensure_cert_existing_pair_untouched:
  assumes "have_pair g w"
  shows "invoked (world_of (ensure_cert g e w)) = invoked w
       \<and> fs (world_of (ensure_cert g e w)) (resolve w (CERT_FILE g)) = fs w (resolve w (CERT_FILE g))
       \<and> fs (world_of (ensure_cert g e w)) (resolve w (KEY_FILE g)) = fs w (resolve w (KEY_FILE g))"
proof (cases "makedirs CERT_DIR w")
  case (Returned w1)
  have c: "fs w (resolve w (CERT_FILE g)) \<noteq> None" and k: "fs w (resolve w (KEY_FILE g)) \<noteq> None"
    using assms by (simp_all add: have_pair_def path_exists_def)
  have f: "fs w1 (resolve w (CERT_FILE g)) = fs w (resolve w (CERT_FILE g))"
     "fs w1 (resolve w (KEY_FILE g)) = fs w (resolve w (KEY_FILE g))"
    using makedirs_frame(7)[OF Returned] c k by simp_all
  have r: "resolve w1 = resolve w"
    using makedirs_frame(1)[OF Returned] by (auto simp: resolve_def fun_eq_iff)
  have hp: "have_pair g w1" using c k f r by (simp add: have_pair_def path_exists_def)
  then have "ensure_cert g e w = Returned w1"
    using Returned by (simp add: ensure_cert_def)
  then show ?thesis using f makedirs_frame(2)[OF Returned] by simp
next
  case (Raised x w1)
  then show ?thesis using makedirs_raised[OF Raised] by (simp add: ensure_cert_def)
next
  case (Blocked w1)
  then show ?thesis using makedirs_not_blocked by blast
qed

text \<open>The theorem at a provisioned project directory.\<close>

theorem ensure_cert_existing_pair_untouched_witness:
  "have_pair (module_init provisioned_world) provisioned_world
   \<and> invoked (world_of (ensure_cert (module_init provisioned_world) working_env provisioned_world)) = []
   \<and> fs (world_of (ensure_cert (module_init provisioned_world) working_env provisioned_world))
        ''/srv/cert/cert.pem'' = Some (File ''CERTIFICATE'')
   \<and> fs (world_of (ensure_cert (module_init provisioned_world) working_env provisioned_world))
        ''/srv/cert/key.pem'' = Some (File ''PRIVATE KEY'')"
proof -
  have h: "have_pair (module_init provisioned_world) provisioned_world"
    by (simp add: os_defs example_defs)
  show ?thesis
    using h ensure_cert_existing_pair_untouched[OF h, of working_env]
    by (simp add: os_defs example_defs)
qed

lemmas run_defs =
  run_def startup_def ensure_cert_def ThreadingTCPServer_def load_cert_chain_def serve_def






text \<open>
  C7. Every external program \<^verbatim>\<open>ensure_cert\<close> starts is started with exactly this argument
  vector: \<^verbatim>\<open>openssl req -x509\<close> (a self-signed X.509 certificate), \<^verbatim>\<open>-newkey rsa:2048\<close>
  (a new 2048-bit RSA key), \<^verbatim>\<open>-days 365\<close>, \<^verbatim>\<open>-subj /CN=localhost\<close>, \<^verbatim>\<open>-nodes\<close> (the key is
  written without a passphrase), the key going to \<^verbatim>\<open>KEY_FILE\<close> and the certificate to
  \<^verbatim>\<open>CERT_FILE\<close>.
\<close>

theorem generation_arguments:
  assumes "isabs (cwd w)"
    and "argv \<in> set (invoked (world_of (ensure_cert (module_init w) e w)))"
    and "argv \<notin> set (invoked w)"
  shows "argv = [''openssl'', ''req'', ''-x509'', ''-newkey'', ''rsa:2048'',
                 ''-keyout'', KEY_FILE (module_init w), ''-out'', CERT_FILE (module_init w),
                 ''-days'', ''365'', ''-nodes'', ''-subj'', ''/CN=localhost'']
       \<and> ''-x509'' \<in> set argv
       \<and> opt_value ''-newkey'' argv = Some ''rsa:2048''
       \<and> opt_value ''-days'' argv = Some ''365''
       \<and> opt_value ''-subj'' argv = Some ''/CN=localhost''
       \<and> ''-nodes'' \<in> set argv
       \<and> opt_value ''-keyout'' argv = Some (KEY_FILE (module_init w))
       \<and> opt_value ''-out'' argv = Some (CERT_FILE (module_init w))"
proof -
  have a: "argv = openssl_argv (module_init w)"
    using assms(2,3) by (auto simp: ensure_cert_invoked split: if_splits)
  show ?thesis
    unfolding a
    using openssl_argv_options[OF isabs_init(2)[OF assms(1)] isabs_init(1)[OF assms(1)]]
    by (simp add: openssl_argv_def)
qed

text \<open>The theorem at a fresh project directory.\<close>

theorem generation_arguments_witness:
  "isabs (cwd fresh_world)
   \<and> openssl_argv (module_init fresh_world)
        \<in> set (invoked (world_of (ensure_cert (module_init fresh_world) working_env fresh_world)))
   \<and> openssl_argv (module_init fresh_world) \<notin> set (invoked fresh_world)
   \<and> openssl_argv (module_init fresh_world) =
       [''openssl'', ''req'', ''-x509'', ''-newkey'', ''rsa:2048'',
        ''-keyout'', ''/srv/cert/key.pem'', ''-out'', ''/srv/cert/cert.pem'',
        ''-days'', ''365'', ''-nodes'', ''-subj'', ''/CN=localhost'']"
proof -
  have a: "isabs (cwd fresh_world)" by (simp add: isabs_def fresh_world_def)
  have b: "openssl_argv (module_init fresh_world)
        \<in> set (invoked (world_of (ensure_cert (module_init fresh_world) working_env fresh_world)))"
    by (simp add: ensure_cert_invoked os_defs example_defs)
  have c: "openssl_argv (module_init fresh_world) \<notin> set (invoked fresh_world)"
    by (simp add: fresh_world_def)
  have k: "KEY_FILE (module_init fresh_world) = ''/srv/cert/key.pem''"
    "CERT_FILE (module_init fresh_world) = ''/srv/cert/cert.pem''"
    by (simp_all add: os_defs example_defs)
  note t = generation_arguments[OF a b c, THEN conjunct1]
  show ?thesis using a b c t unfolding k by simp
qed

section \<open>Serving and shutdown\<close>



section \<open>The command line\<close>




section \<open>The certificate paths\<close>

text \<open>
  C10. The two module constants are the absolute paths \<^verbatim>\<open>cert/cert.pem\<close> and
  \<^verbatim>\<open>cert/key.pem\<close> under the working directory at program start; an absolute path resolves
  to itself in every working directory; hence whenever \<^verbatim>\<open>run\<close> loads a certificate chain,
  it loads exactly the two files the provisioner looked at, \<^verbatim>\<open>ensure_cert\<close> has returned
  with both in place, and the file system is the one the provisioner left, also when the
  working directory has become \<^verbatim>\<open>build\<close> in between.
\<close>

theorem tls_loads_the_provisioned_files:
  assumes "isabs (cwd w)"
  shows "CERT_FILE (module_init w) = posix_join (cwd w) ''cert/cert.pem''
       \<and> KEY_FILE (module_init w) = posix_join (cwd w) ''cert/key.pem''
       \<and> isabs (CERT_FILE (module_init w)) \<and> isabs (KEY_FILE (module_init w))
       \<and> (\<forall>w'. resolve w' (CERT_FILE (module_init w)) = CERT_FILE (module_init w)
              \<and> resolve w' (KEY_FILE (module_init w)) = KEY_FILE (module_init w))
       \<and> (loaded (world_of (run (module_init w) e evs port w)) = loaded w
          \<or> loaded (world_of (run (module_init w) e evs port w)) =
               loaded w @ [(resolve w (CERT_FILE (module_init w)), resolve w (KEY_FILE (module_init w)))]
             \<and> returned (ensure_cert (module_init w) e w)
             \<and> have_pair (module_init w) (world_of (ensure_cert (module_init w) e w))
             \<and> fs (world_of (run (module_init w) e evs port w)) =
                 fs (world_of (ensure_cert (module_init w) e w)))"
proof -
  let ?g = "module_init w"
  have abs: "isabs (CERT_FILE ?g)" "isabs (KEY_FILE ?g)" using isabs_init[OF assms] by simp_all
  have res: "\<forall>w'. resolve w' (CERT_FILE ?g) = CERT_FILE ?g \<and> resolve w' (KEY_FILE ?g) = KEY_FILE ?g"
    using abs by (simp add: resolve_isabs)
  have ld: "loaded (world_of (run ?g e evs port w)) = loaded w
          \<or> loaded (world_of (run ?g e evs port w)) =
               loaded w @ [(resolve w (CERT_FILE ?g), resolve w (KEY_FILE ?g))]
             \<and> returned (ensure_cert ?g e w)
             \<and> have_pair ?g (world_of (ensure_cert ?g e w))
             \<and> fs (world_of (run ?g e evs port w)) = fs (world_of (ensure_cert ?g e w))"
  proof (cases "loaded (world_of (run ?g e evs port w)) = loaded w")
    case True then show ?thesis by simp
  next
    case False
    then obtain w2 where s: "startup ?g e w = Returned w2"
      and l: "loaded (world_of (run ?g e evs port w)) =
              loaded w @ [(resolve w2 (CERT_FILE ?g), resolve w2 (KEY_FILE ?g))]"
      and f: "fs (world_of (run ?g e evs port w)) = fs w2"
      using run_bound_loaded[of ?g e evs port w] by blast
    obtain w1 where e: "ensure_cert ?g e w = Returned w1" and w2: "w2 = w1\<lparr>cwd := cwd w2\<rparr>"
      using startup_returned[OF s] by blast
    have "fs w2 = fs w1" by (subst w2) simp
    then show ?thesis using l f e ensure_cert_Returned_pair[OF e] res by simp
  qed
  show ?thesis using abs res ld by (simp add: CERT_FILE_init)
qed

text \<open>
  The theorem at a fresh project directory with a \<^verbatim>\<open>build\<close> directory: the server ends up
  in \<^verbatim>\<open>/srv/build\<close> and has loaded the pair under \<^verbatim>\<open>/srv/cert\<close>.
\<close>

theorem tls_loads_the_provisioned_files_witness:
  "isabs (cwd fresh_world)
   \<and> cwd (world_of (run (module_init fresh_world) working_env [] 8443 fresh_world)) = ''/srv/build''
   \<and> loaded (world_of (run (module_init fresh_world) working_env [] 8443 fresh_world)) =
       [(''/srv/cert/cert.pem'', ''/srv/cert/key.pem'')]
   \<and> returned (ensure_cert (module_init fresh_world) working_env fresh_world)"
proof -
  have a: "isabs (cwd fresh_world)" by (simp add: isabs_def fresh_world_def)
  have b: "cwd (world_of (run (module_init fresh_world) working_env [] 8443 fresh_world)) = ''/srv/build''"
    "loaded (world_of (run (module_init fresh_world) working_env [] 8443 fresh_world)) \<noteq>
       loaded fresh_world"
    by (simp_all add: run_defs os_defs example_defs fold_print_frame)
  have c: "loaded fresh_world = []" "cwd fresh_world = ''/srv''" by (simp_all add: fresh_world_def)
  note t = tls_loads_the_provisioned_files[OF a, of working_env "[]" 8443]
  show ?thesis
    using a b t unfolding c
    by (simp add: resolve_def posix_join_def isabs_def)
qed

end
